theory Spec2Isabelle
  imports Main
begin

section \<open>Python string operations used by keybase\_chat.py\<close>

text \<open>
  Python strings are sequences of code points. A \<^typ>\<open>char\<close> stands for a code point
  below 256, so the character classes below are the ones of \<open>str.isspace\<close>,
  \<open>str.splitlines\<close>, \<open>str.lower\<close> and the regular expression class \<open>\d\<close>
  restricted to that range.
\<close>

definition is_space :: "char \<Rightarrow> bool" where
  "is_space c = ((of_char c :: nat) \<in> set [9, 10, 11, 12, 13, 28, 29, 30, 31, 32, 133, 160])"

definition is_linebreak :: "char \<Rightarrow> bool" where
  "is_linebreak c = ((of_char c :: nat) \<in> set [10, 11, 12, 13, 28, 29, 30, 133])"

definition is_digit :: "char \<Rightarrow> bool" where
  "is_digit c = (c \<in> set ''0123456789'')"

text \<open>\<open>s.strip()\<close>\<close>

definition strip :: "string \<Rightarrow> string" where
  "strip s = rev (dropWhile is_space (rev (dropWhile is_space s)))"

text \<open>\<open>s.startswith("/")\<close>\<close>

definition startswith_slash :: "string \<Rightarrow> bool" where
  "startswith_slash s = (case s of [] \<Rightarrow> False | c # _ \<Rightarrow> c = CHR ''/'')"

text \<open>\<open>s.lower()\<close>\<close>

definition lower_char :: "char \<Rightarrow> char" where
  "lower_char c =
     (let n = (of_char c :: nat)
      in if (65 \<le> n \<and> n \<le> 90) \<or> (192 \<le> n \<and> n \<le> 222 \<and> n \<noteq> 215)
         then char_of (n + 32) else c)"

definition lower :: "string \<Rightarrow> string" where
  "lower s = map lower_char s"

text \<open>
  \<open>s.split(maxsplit=1)\<close>: leading whitespace is skipped, the first word ends at the
  next whitespace, and what follows the whitespace after it is the second part, kept as
  it is.
\<close>

definition split_maxsplit1 :: "string \<Rightarrow> string list" where
  "split_maxsplit1 s =
     (let s1 = dropWhile is_space s
      in if s1 = [] then []
         else let w = takeWhile (\<lambda>c. \<not> is_space c) s1;
                  r = dropWhile is_space (dropWhile (\<lambda>c. \<not> is_space c) s1)
              in if r = [] then [w] else [w, r])"

text \<open>\<open>s.split(",")\<close>: always at least one field.\<close>

fun split_comma :: "string \<Rightarrow> string list" where
  "split_comma [] = [[]]"
| "split_comma (c # cs) =
     (if c = CHR '','' then [] # split_comma cs
      else (case split_comma cs of
              [] \<Rightarrow> [[c]]
            | w # ws \<Rightarrow> (c # w) # ws))"

text \<open>\<open>",".join(xs)\<close>\<close>

fun join_comma :: "string list \<Rightarrow> string" where
  "join_comma [] = []"
| "join_comma [x] = x"
| "join_comma (x # y # ys) = x @ '','' @ join_comma (y # ys)"

text \<open>
  \<open>s.splitlines()\<close>: the text is cut at every line boundary, \<open>\r\n\<close> counts as
  one boundary, and a boundary at the very end opens no further line. The first argument
  collects the current line, reversed.
\<close>

fun splitlines_from :: "string \<Rightarrow> string \<Rightarrow> string list" where
  "splitlines_from cur [] = (if cur = [] then [] else [rev cur])"
| "splitlines_from cur [c] = (if is_linebreak c then [rev cur] else [rev (c # cur)])"
| "splitlines_from cur (c # d # cs) =
     (if c = CHR 0x0D \<and> d = CHR 0x0A then rev cur # splitlines_from [] cs
      else if is_linebreak c then rev cur # splitlines_from [] (d # cs)
      else splitlines_from (c # cur) (d # cs))"

definition splitlines :: "string \<Rightarrow> string list" where
  "splitlines s = splitlines_from [] s"

text \<open>
  \<open>m = re.match(r"\[(\d+)\]", line)\<close> followed by \<open>m.group(1)\<close>: the digits between
  an opening bracket at the very start of the line and the closing bracket right after
  them; \<open>None\<close> when the line does not start that way.
\<close>

definition extract_id :: "string \<Rightarrow> string option" where
  "extract_id line =
     (case line of
        [] \<Rightarrow> None
      | c # cs \<Rightarrow>
          if c = CHR ''[''
          then (let ds = takeWhile is_digit cs; rest = dropWhile is_digit cs
                in case rest of
                     [] \<Rightarrow> None
                   | r # _ \<Rightarrow> if ds \<noteq> [] \<and> r = CHR '']'' then Some ds else None)
          else None)"

section \<open>Conversations\<close>

text \<open>
  A conversation is the JSON object the backend lists. A field that is absent is
  \<open>None\<close>; \<open>conv.get("channel", {})\<close> makes an absent channel an empty one.
\<close>

record channel =
  members_type :: "string option"
  name :: "string option"
  topic_name :: "string option"

record conversation =
  conv_id :: "string option"
  conv_channel :: "channel option"

definition empty_channel :: channel where
  "empty_channel = \<lparr>members_type = None, name = None, topic_name = None\<rparr>"

definition get_channel :: "conversation \<Rightarrow> channel" where
  "get_channel conv = (case conv_channel conv of None \<Rightarrow> empty_channel | Some ch \<Rightarrow> ch)"

definition get_or :: "'a option \<Rightarrow> 'a \<Rightarrow> 'a" where
  "get_or v d = (case v of None \<Rightarrow> d | Some x \<Rightarrow> x)"

definition conversation_display_name :: "conversation \<Rightarrow> string \<Rightarrow> string" where
  "conversation_display_name conv current_user =
     (let ch = get_channel conv
      in if members_type ch = Some ''team''
         then ''Team: '' @ get_or (name ch) ''unknown'' @ '' (Topic: ''
              @ get_or (topic_name ch) ''unknown'' @ '')''
         else (let names = get_or (name ch) '''';
                   names_list = map strip (split_comma names);
                   filtered = filter (\<lambda>n. n \<noteq> current_user) names_list;
                   filtered = (if filtered = [] then names_list else filtered)
               in join_comma filtered))"

definition get_conversation_spec :: "conversation \<Rightarrow> string" where
  "get_conversation_spec conv =
     (let ch = get_channel conv
      in if members_type ch = Some ''team''
         then get_or (name ch) '''' @ '','' @ get_or (topic_name ch) ''''
         else get_or (name ch) '''')"

section \<open>The backend gateway and the environment\<close>

text \<open>
  Every gateway function runs one \<open>keybase\<close> subprocess and reads its exit code and
  its decoded output. The environment of one handler run gives the outcome of each
  subprocess the handler may start, the UTC clock reading taken by \<open>poll_iteration\<close>
  (the source keeps its ISO rendering; the model keeps the instant, in microseconds), and
  \<open>os.path.exists\<close>, and whether \<open>os.makedirs\<close> raises. What a handler does to the
  outside is returned as a list of actions, in the order of the calls; an exception that
  leaves the handler is its last action, \<open>Raised\<close>.
\<close>

type_synonym timestamp = int

datatype py_error = FileNotFoundError | OSError

record proc =
  returncode :: int
  stdout :: string
  stderr :: string

record env =
  read_previous :: proc
  read_since :: proc
  clock :: timestamp
  api_send :: proc
  upload :: proc
  download :: proc
  path_exists :: "string \<Rightarrow> bool"
  makedirs_error :: "string \<Rightarrow> py_error option"

record config =
  read_at_least :: "int option"
  download_path :: "string option"

datatype action =
    ChatReadAtLeast int string
  | ChatReadSince timestamp string
  | ApiSend "string option" string
  | ChatUpload string string
  | ChatDownload string string string
  | MakeDirs string
  | ScrollEnd
  | PopScreen
  | AppExit
  | Raised py_error

definition read_previous_messages :: "env \<Rightarrow> conversation \<Rightarrow> config \<Rightarrow> string \<times> action list" where
  "read_previous_messages e conv cfg =
     (let spec = get_conversation_spec conv;
          at_least = get_or (read_at_least cfg) 10;
          p = read_previous e
      in (if returncode p \<noteq> 0
          then ''Error reading previous messages: '' @ strip (stderr p)
          else stdout p,
          [ChatReadAtLeast at_least spec]))"

text \<open>\<open>send_message_cmd\<close> awaits the subprocess and returns nothing.\<close>

definition send_message_cmd :: "env \<Rightarrow> string option \<Rightarrow> string \<Rightarrow> action list" where
  "send_message_cmd e conversation_id message = [ApiSend conversation_id message]"

definition attach_file_cmd :: "env \<Rightarrow> conversation \<Rightarrow> string \<Rightarrow> string \<times> action list" where
  "attach_file_cmd e conv file_path =
     (if \<not> path_exists e file_path
      then (''File '' @ [CHR 0x27] @ file_path @ [CHR 0x27] @ '' does not exist.'', [])
      else (let spec = get_conversation_spec conv; p = upload e
            in (if returncode p \<noteq> 0
                then ''Error attaching file: '' @ strip (stderr p)
                else ''File attached successfully.'',
                [ChatUpload spec file_path])))"

text \<open>\<open>os.path.join(a, b)\<close> on POSIX\<close>

definition path_join :: "string \<Rightarrow> string \<Rightarrow> string" where
  "path_join a b =
     (if startswith_slash b then b
      else if a = [] \<or> last a = CHR ''/'' then a @ b
      else a @ ''/'' @ b)"

text \<open>
  \<open>os.makedirs(path)\<close>: the empty path always raises \<open>FileNotFoundError\<close>; for any other
  path the environment says whether the call raises.
\<close>

definition os_makedirs :: "env \<Rightarrow> string \<Rightarrow> py_error option" where
  "os_makedirs e path = (if path = [] then Some FileNotFoundError else makedirs_error e path)"

text \<open>
  \<open>download_file_cmd\<close>. \<open>os.path.exists("")\<close> is false, so an empty download directory
  goes to \<open>os.makedirs\<close>. When \<open>os.makedirs\<close> raises, the function raises before it starts
  the subprocess.
\<close>

definition download_file_cmd ::
  "env \<Rightarrow> conversation \<Rightarrow> string \<Rightarrow> config \<Rightarrow> (py_error + string) \<times> action list" where
  "download_file_cmd e conv file_identifier cfg =
     (let spec = get_conversation_spec conv;
          download_dir = get_or (download_path cfg) ''.'';
          missing = (download_dir = [] \<or> \<not> path_exists e download_dir);
          mk = (if missing then [MakeDirs download_dir] else [])
      in case (if missing then os_makedirs e download_dir else None) of
           Some err \<Rightarrow> (Inl err, mk)
         | None \<Rightarrow>
             (let out_file = path_join download_dir file_identifier;
                  p = download e
              in (Inr (if returncode p \<noteq> 0
                       then ''Error downloading file: '' @ strip (stderr p)
                       else ''File downloaded successfully to '' @ out_file @ ''.''),
                  mk @ [ChatDownload spec file_identifier out_file])))"

definition get_help_text :: string where
  "get_help_text =
     ''Commands:'' @ [CHR 0x0A]
     @ ''  /help                  - Show this help message.'' @ [CHR 0x0A]
     @ ''  /cc [conversation]     - Change channel. With an argument, switches to that conversation.'' @ [CHR 0x0A]
     @ ''  /af <file_path>        - Attach a file to the conversation.'' @ [CHR 0x0A]
     @ ''  /df <file_identifier>  - Download a file (provide file/message ID).'' @ [CHR 0x0A]
     @ ''  /quit                  - Quit the application.'' @ [CHR 0x0A]"

section \<open>The chat screen\<close>

datatype task = Scheduled | Cancelled

record chat_screen =
  conversation :: conversation
  config :: config
  current_user :: string
  listen_task :: "task option"
  running :: bool
  seen_ids :: "string set"
  last_poll_timestamp :: timestamp
  message_list :: "string list"

text \<open>\<open>ChatScreen.__init__\<close>; the last argument is the clock reading it takes.\<close>

definition ChatScreen_init :: "conversation \<Rightarrow> config \<Rightarrow> string \<Rightarrow> timestamp \<Rightarrow> chat_screen" where
  "ChatScreen_init conv cfg user now =
     \<lparr>conversation = conv, config = cfg, current_user = user, listen_task = None,
      running = True, seen_ids = {}, last_poll_timestamp = now, message_list = []\<rparr>"

text \<open>The loop of \<open>on_mount\<close> over the lines of the bulk load.\<close>

fun mount_lines :: "string list \<Rightarrow> chat_screen \<Rightarrow> chat_screen" where
  "mount_lines [] s = s"
| "mount_lines (line # ls) s =
     (let s1 = (case extract_id line of
                  Some msg_id \<Rightarrow> s\<lparr>seen_ids := insert msg_id (seen_ids s)\<rparr>
                | None \<Rightarrow> s)
      in mount_lines ls (s1\<lparr>message_list := message_list s1 @ [line]\<rparr>))"

definition on_mount :: "env \<Rightarrow> chat_screen \<Rightarrow> chat_screen \<times> action list" where
  "on_mount e s =
     (let s0 = s\<lparr>message_list := []\<rparr>;
          (prev, acts) = read_previous_messages e (conversation s0) (config s0);
          s1 = mount_lines (splitlines prev) s0
      in (s1\<lparr>listen_task := Some Scheduled\<rparr>, acts))"

text \<open>The loop of \<open>poll_iteration\<close> over the lines of one poll batch.\<close>

fun poll_lines :: "string list \<Rightarrow> chat_screen \<Rightarrow> chat_screen" where
  "poll_lines [] s = s"
| "poll_lines (line # ls) s =
     (case extract_id line of
        Some msg_id \<Rightarrow>
          if msg_id \<notin> seen_ids s
          then poll_lines ls (s\<lparr>seen_ids := insert msg_id (seen_ids s),
                                 message_list := message_list s @ [line]\<rparr>)
          else poll_lines ls s
      | None \<Rightarrow> poll_lines ls s)"

definition poll_iteration :: "env \<Rightarrow> chat_screen \<Rightarrow> chat_screen \<times> action list" where
  "poll_iteration e s =
     (let acts = [ChatReadSince (last_poll_timestamp s) (get_conversation_spec (conversation s))];
          p = read_since e;
          s1 = s\<lparr>last_poll_timestamp := clock e\<rparr>
      in if returncode p \<noteq> 0 then (s1, acts)
         else (poll_lines (splitlines (stdout p)) s1, acts @ [ScrollEnd]))"

text \<open>
  One turn of the loop of \<open>listen_messages\<close> after its sleep: the loop is the listen
  task, so it turns only while that task is scheduled and \<open>running\<close> holds. Then a run of
  poll attempts, one environment per attempt, giving the screen after each attempt.
\<close>

definition listen_cycle :: "env \<Rightarrow> chat_screen \<Rightarrow> chat_screen \<times> action list" where
  "listen_cycle e s =
     (if running s \<and> listen_task s = Some Scheduled then poll_iteration e s else (s, []))"

fun poll_run :: "env list \<Rightarrow> chat_screen \<Rightarrow> chat_screen list" where
  "poll_run [] s = []"
| "poll_run (e # es) s = (let s1 = fst (poll_iteration e s) in s1 # poll_run es s1)"

definition cancel_listen_task :: "chat_screen \<Rightarrow> chat_screen" where
  "cancel_listen_task s =
     (case listen_task s of None \<Rightarrow> s | Some _ \<Rightarrow> s\<lparr>listen_task := Some Cancelled\<rparr>)"

definition action_pop_chat :: "chat_screen \<Rightarrow> chat_screen \<times> action list" where
  "action_pop_chat s = (cancel_listen_task (s\<lparr>running := False\<rparr>), [PopScreen])"

definition action_quit_app :: "chat_screen \<Rightarrow> chat_screen \<times> action list" where
  "action_quit_app s = (cancel_listen_task (s\<lparr>running := False\<rparr>), [AppExit])"

definition append_item :: "string \<Rightarrow> chat_screen \<Rightarrow> chat_screen" where
  "append_item item s = s\<lparr>message_list := message_list s @ [item]\<rparr>"

text \<open>
  \<open>on_input_submitted\<close>. On the command branch the stripped input starts with a slash,
  so \<open>parts\<close> has a first element (lemma \<open>parts_nonempty\<close>) and \<open>parts[0]\<close> cannot
  raise.
\<close>

definition on_input_submitted :: "env \<Rightarrow> string \<Rightarrow> chat_screen \<Rightarrow> chat_screen \<times> action list" where
  "on_input_submitted e raw s =
     (let user_input = strip raw
      in if startswith_slash user_input
         then (let parts = split_maxsplit1 user_input;
                   cmd = lower (case parts of [] \<Rightarrow> [] | p # _ \<Rightarrow> p);
                   arg = (case parts of _ # a # _ \<Rightarrow> a | _ \<Rightarrow> [])
               in if cmd = ''/help'' then (append_item get_help_text s, [])
                  else if cmd = ''/quit'' then action_quit_app s
                  else if cmd = ''/cc''
                  then (if arg \<noteq> []
                        then (append_item (''Switching to conversation: '' @ arg) s, [PopScreen])
                        else (s, [PopScreen]))
                  else if cmd = ''/af''
                  then (if arg \<noteq> []
                        then (let (result, acts) = attach_file_cmd e (conversation s) arg
                              in (append_item result s, acts))
                        else (append_item ''Usage: /af <file_path>'' s, []))
                  else if cmd = ''/df''
                  then (if arg \<noteq> []
                        then (let (result, acts) =
                                    download_file_cmd e (conversation s) arg (config s)
                              in case result of
                                   Inr shown \<Rightarrow> (append_item shown s, acts)
                                 | Inl err \<Rightarrow> (s, acts @ [Raised err]))
                        else (append_item ''Usage: /df <file_identifier>'' s, []))
                  else (append_item ''Unknown command. Type /help for help.'' s, []))
         else (let acts1 = send_message_cmd e (conv_id (conversation s)) user_input;
                   (s1, acts2) = poll_iteration e s
               in (s1, acts1 @ acts2)))"

section \<open>Derived notions and concrete inputs\<close>

text \<open>The identifiers carried by a sequence of lines, in order.\<close>

definition line_ids :: "string list \<Rightarrow> string list" where
  "line_ids ls = List.map_filter extract_id ls"

text \<open>
  A two-person conversation, the default configuration, a freshly constructed chat
  screen for it, and an environment in which every subprocess succeeds with empty output,
  no path exists and \<open>os.makedirs\<close> does not raise on a path that is not empty.
\<close>

definition ex_conversation :: conversation where
  "ex_conversation =
     \<lparr>conv_id = Some ''0000c1'',
      conv_channel = Some \<lparr>members_type = Some ''impteamnative'', name = Some ''alice,bob'',
                           topic_name = None\<rparr>\<rparr>"

definition ex_config :: config where
  "ex_config = \<lparr>read_at_least = Some 10, download_path = Some ''./downloads''\<rparr>"

definition ex_screen :: chat_screen where
  "ex_screen = ChatScreen_init ex_conversation ex_config ''alice'' 1000"

definition proc_ok :: "string \<Rightarrow> proc" where
  "proc_ok out = \<lparr>returncode = 0, stdout = out, stderr = []\<rparr>"

definition proc_failed :: "string \<Rightarrow> proc" where
  "proc_failed err = \<lparr>returncode = 1, stdout = [], stderr = err\<rparr>"

definition ex_env :: env where
  "ex_env =
     \<lparr>read_previous = proc_ok [], read_since = proc_ok [], clock = 1005,
      api_send = proc_ok [], upload = proc_ok [], download = proc_ok [],
      path_exists = (\<lambda>p. False), makedirs_error = (\<lambda>p. None)\<rparr>"

section \<open>The two merge loops\<close>

lemma line_ids_simps [simp]:
  "line_ids [] = []"
  "line_ids (l # ls) = (case extract_id l of None \<Rightarrow> line_ids ls | Some i \<Rightarrow> i # line_ids ls)"
  "line_ids (xs @ ys) = line_ids xs @ line_ids ys"
  by (simp_all add: line_ids_def map_filter_def split: option.splits)


lemma mount_lines_message_list: "message_list (mount_lines ls s) = message_list s @ ls"
  by (induction ls arbitrary: s) (simp_all split: option.splits)

lemma mount_lines_seen_ids: "seen_ids (mount_lines ls s) = seen_ids s \<union> set (line_ids ls)"
  by (induction ls arbitrary: s) (auto split: option.splits)

lemma poll_lines_seen_ids: "seen_ids (poll_lines ls s) = seen_ids s \<union> set (line_ids ls)"
  by (induction ls arbitrary: s) (auto split: option.splits)

lemma poll_lines_append: "poll_lines (xs @ ys) s = poll_lines ys (poll_lines xs s)"
  by (induction xs arbitrary: s) (simp_all split: option.splits)

text \<open>
  What a poll batch adds to the display: lines of the batch that all carry an identifier,
  pairwise different ones, none of them seen before; no more lines than the batch has, and
  as many only when it adds the whole batch.
\<close>

lemma poll_lines_added:
  "\<exists>added. message_list (poll_lines ls s) = message_list s @ added
     \<and> distinct (line_ids added) \<and> set (line_ids added) \<inter> seen_ids s = {}
     \<and> (\<forall>l \<in> set added. extract_id l \<noteq> None)
     \<and> set added \<subseteq> set ls \<and> length added \<le> length ls
     \<and> (length added = length ls \<longrightarrow> added = ls)"
proof (induction ls arbitrary: s)
  case Nil
  then show ?case by simp
next
  case (Cons l ls)
  from Cons.IH [of s] obtain added0 where
    b: "message_list (poll_lines ls s) = message_list s @ added0"
       "distinct (line_ids added0)" "set (line_ids added0) \<inter> seen_ids s = {}"
       "\<forall>l \<in> set added0. extract_id l \<noteq> None"
       "set added0 \<subseteq> set ls" "length added0 \<le> length ls"
    by blast
  have skip: ?case if "poll_lines (l # ls) s = poll_lines ls s"
  proof -
    have "message_list (poll_lines (l # ls) s) = message_list s @ added0"
      using that b(1) by simp
    moreover have "set added0 \<subseteq> set (l # ls)" using b(5) by auto
    moreover have "length added0 \<le> length (l # ls)" using b(6) by simp
    moreover have "length added0 = length (l # ls) \<longrightarrow> added0 = l # ls" using b(6) by simp
    ultimately show ?thesis using b(2,3,4) by blast
  qed
  show ?case
  proof (cases "extract_id l")
    case None
    then show ?thesis by (intro skip) simp
  next
    case (Some i)
    show ?thesis
    proof (cases "i \<in> seen_ids s")
      case True
      with Some show ?thesis by (intro skip) simp
    next
      case False
      let ?s1 = "s\<lparr>seen_ids := insert i (seen_ids s), message_list := message_list s @ [l]\<rparr>"
      from Cons.IH [of ?s1] obtain added where
        a: "message_list (poll_lines ls ?s1) = message_list ?s1 @ added"
           "distinct (line_ids added)" "set (line_ids added) \<inter> seen_ids ?s1 = {}"
           "\<forall>l \<in> set added. extract_id l \<noteq> None"
           "set added \<subseteq> set ls" "length added \<le> length ls"
           "length added = length ls \<longrightarrow> added = ls"
        by blast
      have "message_list (poll_lines (l # ls) s) = message_list s @ (l # added)"
        using Some False a(1) by simp
      moreover have "distinct (line_ids (l # added))" using Some a(2,3) by auto
      moreover have "set (line_ids (l # added)) \<inter> seen_ids s = {}" using Some False a(3) by auto
      moreover have "\<forall>x \<in> set (l # added). extract_id x \<noteq> None" using Some a(4) by auto
      moreover have "set (l # added) \<subseteq> set (l # ls)" using a(5) by auto
      moreover have "length (l # added) \<le> length (l # ls)" using a(6) by simp
      moreover have "length (l # added) = length (l # ls) \<longrightarrow> l # added = l # ls"
        using a(7) by simp
      ultimately show ?thesis by blast
    qed
  qed
qed

lemma poll_lines_other:
  "conversation (poll_lines ls s) = conversation s"
  "config (poll_lines ls s) = config s"
  "current_user (poll_lines ls s) = current_user s"
  "listen_task (poll_lines ls s) = listen_task s"
  "running (poll_lines ls s) = running s"
  "last_poll_timestamp (poll_lines ls s) = last_poll_timestamp s"
  by (induction ls arbitrary: s) (simp_all split: option.splits)


lemma poll_lines_all_new:
  "(\<forall>l \<in> set ls. extract_id l \<noteq> None) \<Longrightarrow> distinct (line_ids ls) \<Longrightarrow>
     set (line_ids ls) \<inter> seen_ids s = {} \<Longrightarrow>
     message_list (poll_lines ls s) = message_list s @ ls"
  by (induction ls arbitrary: s) (auto split: option.splits)

lemma poll_lines_skip:
  "extract_id line = None \<Longrightarrow> poll_lines (pre @ line # post) s = poll_lines (pre @ post) s"
  by (simp add: poll_lines_append)

lemma extract_id_connected: "extract_id ''Connected.'' = None"
  by (simp add: extract_id_def)

lemma extract_id_1_hi: "extract_id ''[1] hi'' = Some ''1''"
  by (simp add: extract_id_def is_digit_def)

lemma extract_id_2_there: "extract_id ''[2] there'' = Some ''2''"
  by (simp add: extract_id_def is_digit_def)


text \<open>
  A line from which no identifier can be extracted: the loop of the bulk load appends it,
  wherever it stands, and the loop of a poll batch passes over it.
\<close>

lemma line_without_id_bulk_appended_poll_skipped:
  assumes "extract_id line = None"
  shows "message_list (mount_lines (pre @ line # post) s) = message_list s @ pre @ line # post
     \<and> poll_lines (pre @ line # post) s = poll_lines (pre @ post) s"
  using assms by (simp add: mount_lines_message_list poll_lines_skip)

text \<open>
  Claim C1 on a poll batch. The line \<open>Connected.\<close> carries no identifier. The bulk load
  that reads it appends it to the display; a successful poll that fetches it leaves the
  display as it was.
\<close>

theorem poll_drops_line_without_id:
  "extract_id ''Connected.'' = None
   \<and> message_list (fst (on_mount (ex_env\<lparr>read_previous := proc_ok ''Connected.''\<rparr>) ex_screen))
       = [''Connected.'']
   \<and> message_list (fst (poll_iteration (ex_env\<lparr>read_since := proc_ok ''Connected.''\<rparr>) ex_screen))
       = message_list ex_screen
   \<and> message_list ex_screen = []"
  by (simp add: extract_id_connected poll_iteration_def on_mount_def read_previous_messages_def
      Let_def ex_env_def proc_ok_def splitlines_def is_linebreak_def ex_screen_def
      ChatScreen_init_def)

text \<open>
  Claim C2, as the code has it. From every starting screen and for every sequence of
  lines the bulk load and a poll batch leave the same Seen-ID set, and the bulk load
  appends every line. When every line carries an identifier, the identifiers are pairwise
  different and none of them is in the starting Seen-ID set, the poll batch appends the
  same lines. When an identifier repeats in the sequence or is in the starting Seen-ID
  set, the poll batch appends fewer lines than the bulk load.
\<close>

theorem bulk_load_and_poll_same_seen_ids:
  "seen_ids (mount_lines ls s) = seen_ids (poll_lines ls s)
   \<and> message_list (mount_lines ls s) = message_list s @ ls
   \<and> ((\<forall>l \<in> set ls. extract_id l \<noteq> None) \<and> distinct (line_ids ls)
          \<and> set (line_ids ls) \<inter> seen_ids s = {}
        \<longrightarrow> message_list (poll_lines ls s) = message_list (mount_lines ls s))
   \<and> (\<not> (distinct (line_ids ls) \<and> set (line_ids ls) \<inter> seen_ids s = {})
        \<longrightarrow> length (message_list (poll_lines ls s)) < length (message_list (mount_lines ls s)))"
proof -
  obtain added where a: "message_list (poll_lines ls s) = message_list s @ added"
    "distinct (line_ids added)" "set (line_ids added) \<inter> seen_ids s = {}"
    "length added \<le> length ls" "length added = length ls \<longrightarrow> added = ls"
    using poll_lines_added [of ls s] by blast
  have fewer: "length (message_list (poll_lines ls s)) < length (message_list (mount_lines ls s))"
    if "\<not> (distinct (line_ids ls) \<and> set (line_ids ls) \<inter> seen_ids s = {})"
  proof -
    from that a(2,3) have "added \<noteq> ls" by blast
    with a(5) have "length added \<noteq> length ls" by blast
    with a(4) have "length added < length ls" by simp
    with a(1) show ?thesis by (simp add: mount_lines_message_list)
  qed
  have same: "message_list (poll_lines ls s) = message_list (mount_lines ls s)"
    if "(\<forall>l \<in> set ls. extract_id l \<noteq> None) \<and> distinct (line_ids ls)
          \<and> set (line_ids ls) \<inter> seen_ids s = {}"
    using that poll_lines_all_new [of ls s] by (simp add: mount_lines_message_list)
  have "seen_ids (mount_lines ls s) = seen_ids (poll_lines ls s)"
    by (simp only: mount_lines_seen_ids poll_lines_seen_ids)
  with same fewer show ?thesis by (simp only: mount_lines_message_list) blast
qed

theorem bulk_load_and_poll_same_seen_ids_witness:
  "seen_ids (mount_lines [''[1] hi'', ''[2] there''] ex_screen)
     = seen_ids (poll_lines [''[1] hi'', ''[2] there''] ex_screen)
   \<and> distinct (line_ids [''[1] hi'', ''[2] there''])
   \<and> message_list (poll_lines [''[1] hi'', ''[2] there''] ex_screen)
       = message_list (mount_lines [''[1] hi'', ''[2] there''] ex_screen)
   \<and> \<not> distinct (line_ids [''[1] hi'', ''[1] hi''])
   \<and> length (message_list (poll_lines [''[1] hi'', ''[1] hi''] ex_screen))
       < length (message_list (mount_lines [''[1] hi'', ''[1] hi''] ex_screen))"
  using bulk_load_and_poll_same_seen_ids [of "[''[1] hi'', ''[2] there'']" ex_screen]
    bulk_load_and_poll_same_seen_ids [of "[''[1] hi'', ''[1] hi'']" ex_screen]
  by (simp add: extract_id_1_hi extract_id_2_there ex_screen_def ChatScreen_init_def)

text \<open>
  Claim C2 as stated fails: on a load in which an identifier repeats, the bulk load
  appends both lines and the poll batch only the first.
\<close>

theorem bulk_load_and_poll_differ_on_repeated_id:
  "message_list (mount_lines [''[1] hi'', ''[1] hi''] ex_screen)
     \<noteq> message_list (poll_lines [''[1] hi'', ''[1] hi''] ex_screen)"
  by (simp add: extract_id_1_hi ex_screen_def ChatScreen_init_def)

section \<open>Sequences of poll attempts\<close>










lemma poll_run_cursor: "map last_poll_timestamp (poll_run es s) = map clock es"
proof (induction es arbitrary: s)
  case Nil
  then show ?case by simp
next
  case (Cons e es)
  have "last_poll_timestamp (fst (poll_iteration e s)) = clock e"
    by (simp add: poll_iteration_def Let_def poll_lines_other)
  with Cons.IH show ?case by (simp add: Let_def)
qed

text \<open>
  Claim C4, as the code has it. After a poll attempt whose subprocess has completed, with
  exit code zero or not, the Poll Cursor is the clock reading that attempt took; over a
  sequence of attempts the cursors are the clock readings, one by one. The code takes no
  maximum with the old cursor, so the cursor is non-decreasing across the sequence exactly
  when the clock readings are, starting from the cursor the screen had.
\<close>

theorem poll_cursor_follows_clock:
  "last_poll_timestamp (fst (poll_iteration e s)) = clock e
   \<and> map last_poll_timestamp (poll_run es s) = map clock es
   \<and> (sorted (last_poll_timestamp s # map last_poll_timestamp (poll_run es s))
        \<longleftrightarrow> sorted (last_poll_timestamp s # map clock es))"
  using poll_run_cursor [of es s] poll_run_cursor [of "[e]" s]
  by (simp add: Let_def)

theorem poll_cursor_follows_clock_witness:
  "sorted (last_poll_timestamp ex_screen # map clock
        [ex_env\<lparr>read_since := proc_failed ''no network'', clock := 1005\<rparr>,
         ex_env\<lparr>read_since := proc_ok ''[1] hi'', clock := 1010\<rparr>])
   \<and> last_poll_timestamp ex_screen # map last_poll_timestamp (poll_run
        [ex_env\<lparr>read_since := proc_failed ''no network'', clock := 1005\<rparr>,
         ex_env\<lparr>read_since := proc_ok ''[1] hi'', clock := 1010\<rparr>] ex_screen)
       = [1000, 1005, 1010]"
  using poll_cursor_follows_clock
    [of "ex_env\<lparr>read_since := proc_failed ''no network'', clock := 1005\<rparr>" ex_screen
      "[ex_env\<lparr>read_since := proc_failed ''no network'', clock := 1005\<rparr>,
        ex_env\<lparr>read_since := proc_ok ''[1] hi'', clock := 1010\<rparr>]"]
  by (simp add: ex_screen_def ChatScreen_init_def)

text \<open>
  Claim C4 as stated fails: when the clock reads 1005 at one attempt and 1003 at the
  next, the cursor goes back from 1005 to 1003.
\<close>

theorem poll_cursor_goes_back_with_clock:
  "map last_poll_timestamp (poll_run [ex_env\<lparr>clock := 1005\<rparr>, ex_env\<lparr>clock := 1003\<rparr>] ex_screen)
     = [1005, 1003]
   \<and> \<not> sorted (map last_poll_timestamp
         (poll_run [ex_env\<lparr>clock := 1005\<rparr>, ex_env\<lparr>clock := 1003\<rparr>] ex_screen))"
proof -
  have "map last_poll_timestamp
          (poll_run [ex_env\<lparr>clock := 1005\<rparr>, ex_env\<lparr>clock := 1003\<rparr>] ex_screen) = [1005, 1003]"
    by (simp only: poll_run_cursor) simp
  then show ?thesis by simp
qed

section \<open>Identifiers are compared as text\<close>

lemma extract_id_07: "extract_id ''[07] seven'' = Some ''07''"
  by (simp add: extract_id_def is_digit_def)

lemma extract_id_7: "extract_id ''[7] seven'' = Some ''7''"
  by (simp add: extract_id_def is_digit_def)

text \<open>
  Claim C9. The Seen-ID set holds the digit strings as they stand between the brackets,
  and membership is equality of strings. A line of a poll batch whose digit string is
  neither in the Seen-ID set nor carried by an earlier line of the batch is appended and
  its digit string recorded, whatever the numeric value of the strings seen before: after
  \<open>[07]\<close>, a line \<open>[7]\<close> is not a duplicate.
\<close>

theorem ids_compared_as_digit_strings:
  assumes "extract_id l = Some b" and "b \<notin> seen_ids s" and "b \<notin> set (line_ids pre)"
  shows "message_list (poll_lines (pre @ [l]) s) = message_list (poll_lines pre s) @ [l]
     \<and> b \<in> seen_ids (poll_lines (pre @ [l]) s)"
  using assms by (simp add: poll_lines_append poll_lines_seen_ids)

theorem ids_compared_as_digit_strings_witness:
  "extract_id ''[07] seven'' = Some ''07'' \<and> extract_id ''[7] seven'' = Some ''7''
   \<and> ''7'' \<notin> seen_ids ex_screen \<and> ''7'' \<notin> set (line_ids [''[07] seven''])
   \<and> message_list (poll_lines [''[07] seven'', ''[7] seven''] ex_screen)
       = [''[07] seven'', ''[7] seven'']"
proof -
  have h1: "extract_id ''[7] seven'' = Some ''7''" by (rule extract_id_7)
  have h2: "''7'' \<notin> seen_ids ex_screen" by (simp add: ex_screen_def ChatScreen_init_def)
  have h3: "''7'' \<notin> set (line_ids [''[07] seven''])" by (simp add: extract_id_07)
  from ids_compared_as_digit_strings [OF h1 h2 h3] h1 h2 h3 show ?thesis
    by (simp add: extract_id_07 ex_screen_def ChatScreen_init_def)
qed

section \<open>Display names\<close>

lemma split_comma_nonempty: "split_comma s \<noteq> []"
  by (induction s) (auto split: list.splits)

lemma join_comma_nonempty: "xs \<noteq> [] \<Longrightarrow> hd xs \<noteq> [] \<Longrightarrow> join_comma xs \<noteq> []"
  by (cases xs rule: join_comma.cases) simp_all

text \<open>
  Claim C10. For a conversation that is not a team conversation, when removing the
  current user from the stripped, comma-separated names of the channel leaves nothing,
  the display name is the full list of names joined by commas; it is not empty when the
  current user's name is not.
\<close>

theorem display_name_falls_back_to_all_names:
  assumes "members_type (get_channel conv) \<noteq> Some ''team''"
    and "filter (\<lambda>n. n \<noteq> user) (map strip (split_comma (get_or (name (get_channel conv)) []))) = []"
  shows "conversation_display_name conv user
           = join_comma (map strip (split_comma (get_or (name (get_channel conv)) [])))
     \<and> (user \<noteq> [] \<longrightarrow> conversation_display_name conv user \<noteq> [])"
proof -
  let ?names_list = "map strip (split_comma (get_or (name (get_channel conv)) []))"
  have eq: "conversation_display_name conv user = join_comma ?names_list"
    using assms by (simp add: conversation_display_name_def Let_def)
  have ne: "?names_list \<noteq> []" by (simp add: split_comma_nonempty)
  from assms(2) have "\<forall>n \<in> set ?names_list. n = user"
    by (simp only: filter_empty_conv) blast
  with ne have "hd ?names_list = user" by (metis hd_in_set)
  with ne have "user \<noteq> [] \<longrightarrow> join_comma ?names_list \<noteq> []"
    using join_comma_nonempty [of ?names_list] by simp
  with eq show ?thesis by simp
qed

theorem display_name_falls_back_to_all_names_witness:
  "members_type (get_channel (ex_conversation\<lparr>conv_channel :=
       Some \<lparr>members_type = Some ''impteamnative'', name = Some ''alice, alice'',
             topic_name = None\<rparr>\<rparr>))
     \<noteq> Some ''team''
   \<and> filter (\<lambda>n. n \<noteq> ''alice'') (map strip (split_comma (get_or (name (get_channel
       (ex_conversation\<lparr>conv_channel :=
          Some \<lparr>members_type = Some ''impteamnative'', name = Some ''alice, alice'',
                topic_name = None\<rparr>\<rparr>))) []))) = []
   \<and> conversation_display_name (ex_conversation\<lparr>conv_channel :=
       Some \<lparr>members_type = Some ''impteamnative'', name = Some ''alice, alice'',
             topic_name = None\<rparr>\<rparr>)
       ''alice'' = ''alice,alice''"
  using display_name_falls_back_to_all_names [of "ex_conversation\<lparr>conv_channel :=
       Some \<lparr>members_type = Some ''impteamnative'', name = Some ''alice, alice'',
             topic_name = None\<rparr>\<rparr>"
       "''alice''"]
  by (simp add: get_channel_def get_or_def strip_def is_space_def)

section \<open>Facts about the string operations\<close>

lemma strip_no_leading_space: "dropWhile is_space (strip v) = strip v"
proof (cases "dropWhile is_space v")
  case Nil
  show ?thesis unfolding strip_def Nil by simp
next
  case (Cons c cs)
  then have c: "\<not> is_space c" by (metis hd_dropWhile list.sel(1) list.distinct(1))
  have "strip v = rev (dropWhile is_space (rev cs @ [c]))"
    using Cons by (simp add: strip_def)
  also have "\<dots> = c # rev (dropWhile is_space (rev cs))"
    using c by (simp add: dropWhile_append3)
  finally have "strip v = c # rev (dropWhile is_space (rev cs))" .
  with c show ?thesis by simp
qed

lemma split_maxsplit1_shape:
  "\<exists>w r. w = takeWhile (\<lambda>c. \<not> is_space c) (dropWhile is_space s)
     \<and> split_maxsplit1 s
         = (if dropWhile is_space s = [] then [] else if r = [] then [w] else [w, r])"
proof -
  define s1 where "s1 = dropWhile is_space s"
  define w where "w = takeWhile (\<lambda>c. \<not> is_space c) s1"
  define r where "r = dropWhile is_space (dropWhile (\<lambda>c. \<not> is_space c) s1)"
  have "split_maxsplit1 s = (if s1 = [] then [] else if r = [] then [w] else [w, r])"
    unfolding split_maxsplit1_def Let_def s1_def w_def r_def by (rule refl)
  then show ?thesis unfolding s1_def w_def by blast
qed

text \<open>On the command branch of \<open>on_input_submitted\<close>, \<open>parts[0]\<close> exists.\<close>

lemma parts_nonempty:
  assumes "startswith_slash (strip v)"
  shows "split_maxsplit1 (strip v) \<noteq> []"
proof -
  obtain x xs where s: "strip v = x # xs"
    using assms by (cases "strip v") (simp_all add: startswith_slash_def)
  have d: "dropWhile is_space (strip v) = x # xs"
    using strip_no_leading_space [of v] by (simp only: s)
  obtain w r where "split_maxsplit1 (strip v)
         = (if dropWhile is_space (strip v) = [] then [] else if r = [] then [w] else [w, r])"
    using split_maxsplit1_shape [of "strip v"] by blast
  then show ?thesis unfolding d by simp
qed






lemma lower_literals:
  "lower ''/af'' = ''/af''" "lower ''/AF'' = ''/af''" "lower ''/cc'' = ''/cc''"
  by code_simp+

lemma spec_ex_conversation: "get_conversation_spec ex_conversation = ''alice,bob''"
  by (simp add: get_conversation_spec_def get_channel_def get_or_def ex_conversation_def)

lemma conv_id_ex_conversation: "conv_id ex_conversation = Some ''0000c1''"
  by (simp add: ex_conversation_def)

lemma strip_hi: "strip '' hi '' = ''hi''"
  by (simp add: strip_def is_space_def)

lemma strip_hello: "strip ''hello'' = ''hello''"
  by (simp add: strip_def is_space_def)

lemma parts_cc_bob: "split_maxsplit1 (strip ''/cc bob'') = [''/cc'', ''bob'']"
  by (simp add: strip_def is_space_def split_maxsplit1_def)

lemma parts_cc: "split_maxsplit1 (strip ''/cc'') = [''/cc'']"
  by (simp add: strip_def is_space_def split_maxsplit1_def)

lemma startswith_slash_cc: "startswith_slash (strip ''/cc bob'')" "startswith_slash (strip ''/cc'')"
  by (simp_all add: strip_def is_space_def startswith_slash_def)


section \<open>Input handling\<close>

text \<open>
  Claim C5, as the code has it. The handler strips the submitted text first. When the
  stripped text does not begin with a slash, the stripped text is what is passed to the
  send operation of the gateway, with the conversation's id, and right after it exactly
  one poll runs: the screen and the actions that follow the send are those of
  \<open>poll_iteration\<close>, one read since the cursor (and the scroll when it succeeded), which is
  also what a scheduled cycle of a running screen does.
\<close>

theorem plain_input_sent_stripped_then_one_poll:
  assumes "\<not> startswith_slash (strip v)"
  shows "on_input_submitted e v s
           = (fst (poll_iteration e s),
              ApiSend (conv_id (conversation s)) (strip v) # snd (poll_iteration e s))
     \<and> snd (poll_iteration e s)
           = ChatReadSince (last_poll_timestamp s) (get_conversation_spec (conversation s))
               # (if returncode (read_since e) \<noteq> 0 then [] else [ScrollEnd])
     \<and> (running s \<and> listen_task s = Some Scheduled \<longrightarrow>
          listen_cycle e s = poll_iteration e s)"
  using assms
  by (simp add: on_input_submitted_def Let_def send_message_cmd_def split_beta
      poll_iteration_def listen_cycle_def)

theorem plain_input_sent_stripped_then_one_poll_witness:
  "\<not> startswith_slash (strip '' hi '')
   \<and> on_input_submitted ex_env '' hi '' ex_screen
       = (ex_screen\<lparr>last_poll_timestamp := 1005\<rparr>,
          [ApiSend (Some ''0000c1'') ''hi'', ChatReadSince 1000 ''alice,bob'', ScrollEnd])"
proof -
  have h: "\<not> startswith_slash (strip '' hi '')"
    by (simp add: strip_hi startswith_slash_def)
  have p: "poll_iteration ex_env ex_screen
             = (ex_screen\<lparr>last_poll_timestamp := 1005\<rparr>, [ChatReadSince 1000 ''alice,bob'', ScrollEnd])"
    by (simp add: poll_iteration_def Let_def spec_ex_conversation splitlines_def)
       (simp add: ex_env_def ex_screen_def ChatScreen_init_def proc_ok_def spec_ex_conversation)
  from plain_input_sent_stripped_then_one_poll [OF h, of ex_env ex_screen] h show ?thesis
    by (simp add: p strip_hi) (simp add: ex_screen_def ChatScreen_init_def ex_conversation_def)
qed

text \<open>
  Claim C5 as stated fails: the input \<open>" hi "\<close> does not begin with a slash, and the
  text passed to the send operation is \<open>"hi"\<close>, not the input.
\<close>

theorem plain_input_not_sent_verbatim:
  "\<not> startswith_slash '' hi ''
   \<and> ApiSend (Some ''0000c1'') '' hi '' \<notin> set (snd (on_input_submitted ex_env '' hi '' ex_screen))
   \<and> ApiSend (Some ''0000c1'') ''hi'' \<in> set (snd (on_input_submitted ex_env '' hi '' ex_screen))"
  by (simp add: startswith_slash_def on_input_submitted_def Let_def strip_hi send_message_cmd_def
      split_beta poll_iteration_def ex_screen_def ChatScreen_init_def ex_conversation_def)

text \<open>
  The outcome of the send subprocess is never read, while a failed upload and a failed
  download come back as result text with the stripped error output. A download into the
  empty path raises before the gateway is called.
\<close>

lemma gateway_ignores_send_outcome:
  "attach_file_cmd (e\<lparr>api_send := p\<rparr>) conv file_path = attach_file_cmd e conv file_path"
  "download_file_cmd (e\<lparr>api_send := p\<rparr>) conv file_identifier cfg
     = download_file_cmd e conv file_identifier cfg"
  "poll_iteration (e\<lparr>api_send := p\<rparr>) s = poll_iteration e s"
  "send_message_cmd (e\<lparr>api_send := p\<rparr>) conversation_id message
     = send_message_cmd e conversation_id message"
  by (simp_all add: attach_file_cmd_def download_file_cmd_def os_makedirs_def poll_iteration_def
      send_message_cmd_def Let_def split: option.splits)

lemma send_outcome_never_read:
  "on_input_submitted (e\<lparr>api_send := p\<rparr>) v s = on_input_submitted e v s"
  unfolding on_input_submitted_def gateway_ignores_send_outcome by (rule refl)

lemma attach_failure_surfaced:
  "path_exists e file_path \<Longrightarrow> returncode (upload e) \<noteq> 0 \<Longrightarrow>
     attach_file_cmd e conv file_path
       = (''Error attaching file: '' @ strip (stderr (upload e)),
          [ChatUpload (get_conversation_spec conv) file_path])"
  by (simp add: attach_file_cmd_def Let_def)

lemma download_failure_surfaced:
  "returncode (download e) \<noteq> 0 \<Longrightarrow>
     fst (download_file_cmd e conv file_identifier cfg) = Inr shown \<Longrightarrow>
     shown = ''Error downloading file: '' @ strip (stderr (download e))"
  by (auto simp: download_file_cmd_def Let_def split: option.splits)

lemma download_into_empty_path_raises:
  "download_path cfg = Some [] \<Longrightarrow>
     download_file_cmd e conv file_identifier cfg = (Inl FileNotFoundError, [MakeDirs []])"
  by (simp add: download_file_cmd_def Let_def get_or_def os_makedirs_def)

text \<open>
  Claim C6 on a failed send. The user submits \<open>hello\<close> and the send subprocess exits
  with code 1 and an error text. The handler goes on to the poll, and the chat view shows
  nothing: no line, and so no error detail, is appended.
\<close>

theorem failed_send_shows_nothing:
  "returncode (api_send (ex_env\<lparr>api_send := proc_failed ''rate limited''\<rparr>)) \<noteq> 0
   \<and> on_input_submitted (ex_env\<lparr>api_send := proc_failed ''rate limited''\<rparr>) ''hello'' ex_screen
       = (ex_screen\<lparr>last_poll_timestamp := 1005\<rparr>,
          [ApiSend (Some ''0000c1'') ''hello'', ChatReadSince 1000 ''alice,bob'', ScrollEnd])
   \<and> message_list (fst (on_input_submitted (ex_env\<lparr>api_send := proc_failed ''rate limited''\<rparr>)
         ''hello'' ex_screen)) = []"
  by (simp add: on_input_submitted_def Let_def strip_hello startswith_slash_def send_message_cmd_def
      split_beta poll_iteration_def splitlines_def proc_failed_def)
     (simp add: ex_env_def ex_screen_def ChatScreen_init_def proc_ok_def spec_ex_conversation
      conv_id_ex_conversation)

text \<open>
  Claim C7 on \<open>/cc bob\<close>, typed into a mounted chat screen. The handler appends the
  switching notice and pops the screen, and that is all: its actions are those of \<open>/cc\<close>
  without an argument, nothing selects or enters a conversation, and the screen is left
  running with its listen task scheduled, where the way back (\<open>action_pop_chat\<close>) stops
  the screen and cancels the task.
\<close>

theorem cc_with_argument_only_pops_screen:
  "on_input_submitted ex_env ''/cc bob'' (ex_screen\<lparr>listen_task := Some Scheduled\<rparr>)
     = (ex_screen\<lparr>listen_task := Some Scheduled,
                   message_list := [''Switching to conversation: bob'']\<rparr>, [PopScreen])
   \<and> snd (on_input_submitted ex_env ''/cc'' (ex_screen\<lparr>listen_task := Some Scheduled\<rparr>))
     = [PopScreen]
   \<and> action_pop_chat (ex_screen\<lparr>listen_task := Some Scheduled\<rparr>)
     = (ex_screen\<lparr>listen_task := Some Cancelled, running := False\<rparr>, [PopScreen])"
  by (simp add: on_input_submitted_def Let_def startswith_slash_cc parts_cc_bob parts_cc
      lower_literals append_item_def action_pop_chat_def cancel_listen_task_def)
     (simp add: ex_screen_def ChatScreen_init_def)



end
